theory Spec2Isabelle
  imports Main "HOL-Library.Word"
begin

unbundle bit_operations_syntax

section \<open>Data model of main.go\<close>

text \<open>
  The program is one Go file. Its structs become records, Go's \<open>byte\<close> is an 8-bit word,
  \<open>uint16\<close>/\<open>uint32\<close> are 16- and 32-bit words, and \<open>int32\<close> is a 32-bit word read
  with \<open>sint\<close>. A \<open>[]Pixel\<close> slice is a list, row after row; the \<open>nil\<close> slice is
  the empty list. The \<open>[2]byte\<close> array \<open>FileType\<close> is a pair of bytes.
\<close>

type_synonym byte = "8 word"

record BMPHeader =
  FileType :: "byte \<times> byte"
  FileSize :: "32 word"
  Reserved :: "32 word"
  OffsetData :: "32 word"

record DIBHeader =
  DibHeaderSize :: "32 word"
  Width :: "32 word"
  Height :: "32 word"
  Planes :: "16 word"
  BitCount :: "16 word"
  Compression :: "32 word"
  ImageSize :: "32 word"
  XPixelsPerM :: "32 word"
  YPixelsPerM :: "32 word"
  ColorsUsed :: "32 word"
  ColorsImp :: "32 word"

record Pixel =
  Blue :: byte
  Green :: byte
  Red :: byte

record Option =
  Name :: string
  Value :: string

text \<open>
  Go has one \<open>error\<close> interface; every error the program builds is one constructor
  here, named after its message.
\<close>

datatype error =
  InvalidNumberOfArguments
  | UsageHeader
  | UsageApply
  | InvalidOptionFormat string
  | UnexpectedArgument string
  | UnknownCommand string
  | ErrorOpeningFile
  | ErrorReadingBMPHeader
  | NotAValidBMPFile
  | ErrorReadingDIBHeader

text \<open>The file system the program sees: the contents of each file that can be opened.\<close>

type_synonym files = "string \<rightharpoonup> byte list"

section \<open>parseArgs\<close>

text \<open>\<open>strings.HasPrefix(s, prefix)\<close>.\<close>

definition HasPrefix :: "string \<Rightarrow> string \<Rightarrow> bool" where
  "HasPrefix s p \<longleftrightarrow> length p \<le> length s \<and> take (length p) s = p"

text \<open>
  \<open>strings.SplitN(s, sep, 2)\<close> for a one-character separator: the text before the
  first separator and the text after it, or the whole string alone when it has none.
\<close>

definition SplitN2 :: "string \<Rightarrow> char \<Rightarrow> string list" where
  "SplitN2 s sep =
     (if sep \<in> set s
      then [takeWhile (\<lambda>c. c \<noteq> sep) s, tl (dropWhile (\<lambda>c. c \<noteq> sep) s)]
      else [s])"

text \<open>
  The loop of \<open>parseArgs\<close> over \<open>args[1 .. len(args)-2)\<close>, with the options
  collected so far.
\<close>

fun parseOptions :: "string list \<Rightarrow> Option list \<Rightarrow> error + Option list" where
  "parseOptions [] orderedOptions = Inr orderedOptions"
| "parseOptions (arg # rest) orderedOptions =
     (if HasPrefix arg ''--''
      then (let parts = SplitN2 arg (CHR ''='')
            in if length parts \<noteq> 2 then Inl (InvalidOptionFormat arg)
               else parseOptions rest
                      (orderedOptions @ [\<lparr>Name = parts ! 0, Value = parts ! 1\<rparr>]))
      else Inl (UnexpectedArgument arg))"

text \<open>
  \<open>parseArgs\<close> returns (command, filename, outputFilename, orderedOptions) or an error;
  \<open>args\<close> is \<open>os.Args[1:]\<close>.
\<close>

definition parseArgs :: "string list \<Rightarrow> error + (string \<times> string \<times> string \<times> Option list)" where
  "parseArgs args =
     (if length args < 2 then Inl InvalidNumberOfArguments
      else let command = args ! 0 in
        if command = ''header''
        then (if length args \<noteq> 2 then Inl UsageHeader
              else Inr (command, args ! 1, '''', []))
        else if command = ''apply''
        then (if length args < 4 then Inl UsageApply
              else (case parseOptions (take (length args - 3) (drop 1 args)) [] of
                      Inl e \<Rightarrow> Inl e
                    | Inr orderedOptions \<Rightarrow>
                        Inr (command, args ! (length args - 2), args ! (length args - 1),
                             orderedOptions)))
        else Inl (UnknownCommand command))"

section \<open>readHeaders\<close>

text \<open>
  \<open>binary.LittleEndian.Uint16\<close> and \<open>Uint32\<close>:
  \<open>uint32(b[0]) | uint32(b[1])<<8 | uint32(b[2])<<16 | uint32(b[3])<<24\<close>.
\<close>

definition LittleEndian_Uint16 :: "byte list \<Rightarrow> 16 word" where
  "LittleEndian_Uint16 b = ucast (b ! 0) OR push_bit 8 (ucast (b ! 1))"

definition LittleEndian_Uint32 :: "byte list \<Rightarrow> 32 word" where
  "LittleEndian_Uint32 b =
     ucast (b ! 0) OR push_bit 8 (ucast (b ! 1)) OR push_bit 16 (ucast (b ! 2)) OR
     push_bit 24 (ucast (b ! 3))"

text \<open>
  The decoder of \<open>encoding/binary\<close> walks the struct's fields in order over the bytes
  read; each step returns the field and the bytes left.
\<close>

definition dec_uint8 :: "byte list \<Rightarrow> byte \<times> byte list" where
  "dec_uint8 d = (d ! 0, drop 1 d)"

definition dec_uint16 :: "byte list \<Rightarrow> 16 word \<times> byte list" where
  "dec_uint16 d = (LittleEndian_Uint16 d, drop 2 d)"

definition dec_uint32 :: "byte list \<Rightarrow> 32 word \<times> byte list" where
  "dec_uint32 d = (LittleEndian_Uint32 d, drop 4 d)"

definition decode_BMPHeader :: "byte list \<Rightarrow> BMPHeader" where
  "decode_BMPHeader buf =
     (let (t0, d) = dec_uint8 buf;
          (t1, d) = dec_uint8 d;
          (fsize, d) = dec_uint32 d;
          (rsv, d) = dec_uint32 d;
          (off, d) = dec_uint32 d
      in \<lparr>FileType = (t0, t1), FileSize = fsize, Reserved = rsv, OffsetData = off\<rparr>)"

definition decode_DIBHeader :: "byte list \<Rightarrow> DIBHeader" where
  "decode_DIBHeader buf =
     (let (hsize, d) = dec_uint32 buf;
          (w, d) = dec_uint32 d;
          (h, d) = dec_uint32 d;
          (pl, d) = dec_uint16 d;
          (bc, d) = dec_uint16 d;
          (cmp, d) = dec_uint32 d;
          (isz, d) = dec_uint32 d;
          (xppm, d) = dec_uint32 d;
          (yppm, d) = dec_uint32 d;
          (cu, d) = dec_uint32 d;
          (ci, d) = dec_uint32 d
      in \<lparr>DibHeaderSize = hsize, Width = w, Height = h, Planes = pl, BitCount = bc,
          Compression = cmp, ImageSize = isz, XPixelsPerM = xppm, YPixelsPerM = yppm,
          ColorsUsed = cu, ColorsImp = ci\<rparr>)"

text \<open>
  \<open>io.ReadFull\<close> on the open file: the next \<open>n\<close> bytes and the rest of the file, or
  nothing when fewer than \<open>n\<close> bytes are left (\<open>binary.Read\<close> then returns an error).
\<close>

definition ReadFull :: "nat \<Rightarrow> byte list \<Rightarrow> (byte list \<times> byte list) option" where
  "ReadFull n file = (if length file < n then None else Some (take n file, drop n file))"

text \<open>
  \<open>readHeaders\<close>: open the file, read the 14 bytes of the BMP header, compare the file
  type with "BM" (0x42, 0x4D), read the 40 bytes of the DIB header. The line it
  prints is left out.
\<close>

definition readHeaders :: "files \<Rightarrow> string \<Rightarrow> error + (BMPHeader \<times> DIBHeader)" where
  "readHeaders fs filename =
     (case fs filename of
        None \<Rightarrow> Inl ErrorOpeningFile
      | Some file \<Rightarrow>
          (case ReadFull 14 file of
             None \<Rightarrow> Inl ErrorReadingBMPHeader
           | Some (buf, file') \<Rightarrow>
               (let bmpHeader = decode_BMPHeader buf in
                if FileType bmpHeader \<noteq> (0x42, 0x4D) then Inl NotAValidBMPFile
                else (case ReadFull 40 file' of
                        None \<Rightarrow> Inl ErrorReadingDIBHeader
                      | Some (buf', file'') \<Rightarrow> Inr (bmpHeader, decode_DIBHeader buf')))))"

text \<open>
  The value of a byte sequence read little-endian, least significant byte first. This
  is the reading the file-format table gives to every multi-byte field; the decoded
  fields are compared with it.
\<close>

fun little_endian :: "byte list \<Rightarrow> nat" where
  "little_endian [] = 0"
| "little_endian (b # bs) = unat b + 256 * little_endian bs"

section \<open>Pixel input and output, transforms\<close>

text \<open>\<open>readPixels\<close> returns \<open>nil, nil\<close>: no pixels and no error.\<close>

definition readPixels :: "files \<Rightarrow> string \<Rightarrow> BMPHeader \<Rightarrow> DIBHeader \<Rightarrow> error + Pixel list" where
  "readPixels fs filename bmpHeader dibHeader = Inr []"

text \<open>
  \<open>writePixels\<close> returns \<open>nil\<close>: the file system after the call, and no error.
\<close>

definition writePixels ::
  "files \<Rightarrow> string \<Rightarrow> BMPHeader \<Rightarrow> DIBHeader \<Rightarrow> Pixel list \<Rightarrow> files \<times> error option" where
  "writePixels fs filename bmpHeader dibHeader pixels = (fs, None)"

definition applyMirror :: "Pixel list \<Rightarrow> int \<Rightarrow> int \<Rightarrow> string \<Rightarrow> Pixel list" where
  "applyMirror pixels width height mode = pixels"

definition applyFilter :: "Pixel list \<Rightarrow> int \<Rightarrow> int \<Rightarrow> string \<Rightarrow> Pixel list" where
  "applyFilter pixels width height filterType = pixels"

definition applyRotate :: "Pixel list \<Rightarrow> int \<Rightarrow> int \<Rightarrow> int \<Rightarrow> Pixel list" where
  "applyRotate pixels width height angle = pixels"

definition applyCrop ::
  "Pixel list \<Rightarrow> int \<Rightarrow> int \<Rightarrow> int \<Rightarrow> int \<Rightarrow> int \<Rightarrow> int \<Rightarrow> Pixel list" where
  "applyCrop pixels width height offsetX offsetY cropWidth cropHeight = pixels"

section \<open>The option loop of main\<close>

text \<open>
  The body of the loop is a switch on the option's name that picks one call. The call
  is kept as a value, so that what each option passes to its transform can be stated:
  the arguments after \<open>pixels\<close>, in the order of the Go signature.
\<close>

datatype transform_call =
  CallMirror int int string
  | CallFilter int int string
  | CallRotate int int int
  | CallCrop int int int int int int

definition option_call :: "DIBHeader \<Rightarrow> Option \<Rightarrow> transform_call option" where
  "option_call dibHeader opt =
     (if Name opt = ''--mirror''
      then Some (CallMirror (sint (Width dibHeader)) (sint (Height dibHeader)) (Value opt))
      else if Name opt = ''--filter''
      then Some (CallFilter (sint (Width dibHeader)) (sint (Height dibHeader)) (Value opt))
      else if Name opt = ''--rotate''
      then (let angle = 0
            in Some (CallRotate (sint (Width dibHeader)) (sint (Height dibHeader)) angle))
      else if Name opt = ''--crop''
      then Some (CallCrop (sint (Width dibHeader)) (sint (Height dibHeader)) 0 0 100 100)
      else None)"

fun run_call :: "transform_call \<Rightarrow> Pixel list \<Rightarrow> Pixel list" where
  "run_call (CallMirror w h mode) pixels = applyMirror pixels w h mode"
| "run_call (CallFilter w h filterType) pixels = applyFilter pixels w h filterType"
| "run_call (CallRotate w h angle) pixels = applyRotate pixels w h angle"
| "run_call (CallCrop w h ox oy cw ch) pixels = applyCrop pixels w h ox oy cw ch"

definition process_option :: "DIBHeader \<Rightarrow> Pixel list \<Rightarrow> Option \<Rightarrow> Pixel list" where
  "process_option dibHeader pixels opt =
     (case option_call dibHeader opt of
        None \<Rightarrow> pixels
      | Some c \<Rightarrow> run_call c pixels)"

text \<open>\<open>for _, opt := range orderedOptions\<close>.\<close>

fun process_options :: "DIBHeader \<Rightarrow> Pixel list \<Rightarrow> Option list \<Rightarrow> Pixel list" where
  "process_options dibHeader pixels [] = pixels"
| "process_options dibHeader pixels (opt # opts) =
     process_options dibHeader (process_option dibHeader pixels opt) opts"

text \<open>The calls the loop makes, in the order it makes them.\<close>

fun pipeline_calls :: "DIBHeader \<Rightarrow> Option list \<Rightarrow> transform_call list" where
  "pipeline_calls dibHeader [] = []"
| "pipeline_calls dibHeader (opt # opts) =
     (case option_call dibHeader opt of
        None \<Rightarrow> pipeline_calls dibHeader opts
      | Some c \<Rightarrow> c # pipeline_calls dibHeader opts)"

section \<open>main\<close>

text \<open>
  \<open>main\<close> on a file system and \<open>os.Args\<close>: the exit status and the file system it
  leaves. What it prints is left out. A run that reaches the end of \<open>main\<close> exits
  with status 0; every \<open>os.Exit(1)\<close> is status 1.
\<close>

definition main :: "files \<Rightarrow> string list \<Rightarrow> nat \<times> files" where
  "main fs os_Args =
     (if length os_Args < 2 then (1, fs)
      else (case parseArgs (drop 1 os_Args) of
              Inl err \<Rightarrow> (1, fs)
            | Inr (command, filename, outputFilename, orderedOptions) \<Rightarrow>
                (case readHeaders fs filename of
                   Inl err \<Rightarrow> (1, fs)
                 | Inr (bmpHeader, dibHeader) \<Rightarrow>
                     if command = ''header'' then (0, fs)
                     else if command = ''apply''
                     then (case readPixels fs filename bmpHeader dibHeader of
                             Inl err \<Rightarrow> (1, fs)
                           | Inr pixels \<Rightarrow>
                               (let pixels' = process_options dibHeader pixels orderedOptions
                                in case writePixels fs outputFilename bmpHeader dibHeader pixels' of
                                     (fs', Some err) \<Rightarrow> (1, fs')
                                   | (fs', None) \<Rightarrow> (0, fs')))
                     else (1, fs))))"

section \<open>Sample inputs\<close>

text \<open>
  A 4 by 2 image whose eight pixels differ pairwise (pixel \<open>i\<close> has the value \<open>i\<close> in
  every channel), its DIB header as a 24-bit BMP file would give it, and a 54-byte file
  that holds "BM" followed by zero bytes only.
\<close>

definition gray :: "byte \<Rightarrow> Pixel" where
  "gray v = \<lparr>Blue = v, Green = v, Red = v\<rparr>"

definition sample_pixels :: "Pixel list" where
  "sample_pixels = [gray 0, gray 1, gray 2, gray 3, gray 4, gray 5, gray 6, gray 7]"

definition sample_bmp :: BMPHeader where
  "sample_bmp = \<lparr>FileType = (0x42, 0x4D), FileSize = 78, Reserved = 0, OffsetData = 54\<rparr>"

definition sample_dib :: DIBHeader where
  "sample_dib =
     \<lparr>DibHeaderSize = 40, Width = 4, Height = 2, Planes = 1, BitCount = 24,
      Compression = 0, ImageSize = 24, XPixelsPerM = 0, YPixelsPerM = 0,
      ColorsUsed = 0, ColorsImp = 0\<rparr>"

definition bm_zeros :: "byte list" where
  "bm_zeros = [0x42, 0x4D] @ replicate 52 0"

definition sample_file :: "byte list" where
  "sample_file =
     [0x42, 0x4D, 78, 0, 0, 0, 0, 0, 0, 0, 54, 0, 0, 0,
      40, 0, 0, 0, 4, 0, 0, 0, 2, 0, 0, 0, 1, 0, 24, 0, 0, 0, 0, 0, 24, 0, 0, 0,
      0, 0, 0, 0, 0, 0, 0, 0, 0, 0, 0, 0, 0, 0, 0, 0,
      4, 4, 4, 5, 5, 5, 6, 6, 6, 7, 7, 7,
      0, 0, 0, 1, 1, 1, 2, 2, 2, 3, 3, 3]"

section \<open>parseArgs: an apply command needs an option\<close>

lemma parseOptions_length:
  "parseOptions as acc = Inr opts \<Longrightarrow> length opts = length acc + length as"
proof (induction as arbitrary: acc)
  case Nil
  then show ?case by simp
next
  case (Cons a as)
  from Cons.prems have "HasPrefix a ''--''" "length (SplitN2 a (CHR ''='')) = 2"
    by (auto simp: Let_def split: if_splits)
  with Cons.prems have
    "parseOptions as
       (acc @ [\<lparr>Name = SplitN2 a (CHR ''='') ! 0, Value = SplitN2 a (CHR ''='') ! 1\<rparr>])
     = Inr opts"
    by (simp add: Let_def)
  from Cons.IH [OF this] show ?case by simp
qed

text \<open>
  Claim C10. For every argument list of the form \<open>["apply", source_file, output_file]\<close>,
  with no transform option, \<open>parseArgs\<close> returns an error (the usage message of
  apply) and not the two file names with an empty option list. Whenever \<open>parseArgs\<close>
  does accept an apply command, the argument list has at least four entries and the
  option list it returns is not empty.
\<close>

theorem apply_needs_an_option:
  "parseArgs [''apply'', source_file, output_file] = Inl UsageApply \<and>
   (\<forall>args filename outputFilename orderedOptions.
      parseArgs args = Inr (''apply'', filename, outputFilename, orderedOptions) \<longrightarrow>
      4 \<le> length args \<and> orderedOptions \<noteq> [])"
proof -
  have short: "parseArgs [''apply'', source_file, output_file] = Inl UsageApply"
    by (simp add: parseArgs_def)
  have "4 \<le> length args \<and> orderedOptions \<noteq> []"
    if ok: "parseArgs args = Inr (''apply'', filename, outputFilename, orderedOptions)"
    for args filename outputFilename orderedOptions
  proof -
    from ok have len: "4 \<le> length args"
      by (auto simp: parseArgs_def Let_def split: if_splits sum.splits)
    with ok have "parseOptions (take (length args - 3) (drop 1 args)) [] = Inr orderedOptions"
      by (auto simp: parseArgs_def Let_def split: if_splits sum.splits)
    from parseOptions_length [OF this] len have "length orderedOptions = length args - 3"
      by simp
    with len show ?thesis by auto
  qed
  with short show ?thesis by blast
qed

theorem apply_needs_an_option_witness:
  "parseArgs [''apply'', ''in.bmp'', ''out.bmp''] = Inl UsageApply \<and>
   parseArgs [''apply'', ''--mirror=horizontal'', ''in.bmp'', ''out.bmp'']
     = Inr (''apply'', ''in.bmp'', ''out.bmp'',
            [\<lparr>Name = ''--mirror'', Value = ''horizontal''\<rparr>]) \<and>
   4 \<le> length [''apply'', ''--mirror=horizontal'', ''in.bmp'', ''out.bmp''] \<and>
   [\<lparr>Name = ''--mirror'', Value = ''horizontal''\<rparr>] \<noteq> []"
proof -
  have p: "parseArgs [''apply'', ''--mirror=horizontal'', ''in.bmp'', ''out.bmp'']
     = Inr (''apply'', ''in.bmp'', ''out.bmp'',
            [\<lparr>Name = ''--mirror'', Value = ''horizontal''\<rparr>])"
    by (simp add: parseArgs_def HasPrefix_def SplitN2_def Let_def)
  from apply_needs_an_option [of "''in.bmp''" "''out.bmp''"] p show ?thesis
    by blast
qed

section \<open>The transforms and the option loop return the pixels they are given\<close>

lemma process_option_id: "process_option dib pixels opt = pixels"
  by (cases "option_call dib opt"; cases "the (option_call dib opt)")
     (simp_all add: process_option_def applyMirror_def applyFilter_def applyRotate_def
        applyCrop_def)

lemma process_options_calls:
  "process_options dib pixels opts = foldl (\<lambda>p c. run_call c p) pixels (pipeline_calls dib opts)"
  by (induction opts arbitrary: pixels)
     (simp_all add: process_option_def split: option.splits)

text \<open>
  Claim C9. Each of \<open>applyMirror\<close>, \<open>applyFilter\<close>, \<open>applyRotate\<close> and
  \<open>applyCrop\<close> returns the pixel slice it is given, whatever the other arguments are,
  and so the option loop of \<open>main\<close> returns the pixels unchanged for every option list.
\<close>

theorem transforms_return_their_input:
  "applyMirror pixels width height mode = pixels \<and>
   applyFilter pixels width height filterType = pixels \<and>
   applyRotate pixels width height angle = pixels \<and>
   applyCrop pixels width height offsetX offsetY cropWidth cropHeight = pixels \<and>
   process_options dibHeader pixels orderedOptions = pixels"
proof -
  have "process_options dibHeader pixels orderedOptions = pixels"
    by (induction orderedOptions arbitrary: pixels) (simp_all add: process_option_id)
  then show ?thesis
    by (simp add: applyMirror_def applyFilter_def applyRotate_def applyCrop_def)
qed

section \<open>readHeaders: what is checked, and how the fields are read\<close>

text \<open>
  The words built by \<open>LittleEndian_Uint16\<close> and \<open>LittleEndian_Uint32\<close> have the
  little-endian value of their bytes: the bytes occupy disjoint bit ranges, so the
  bitwise OR is a sum.
\<close>

lemma or_push8_int:
  fixes a r :: int
  assumes "0 \<le> a" "a < 256"
  shows "a OR push_bit 8 r = a + 256 * r"
proof -
  have t: "take_bit 8 a = a" using assms by (simp add: take_bit_int_eq_self)
  then have "a OR push_bit 8 r = concat_bit 8 a r" by (simp add: concat_bit_def)
  also have "\<dots> = take_bit 8 a + push_bit 8 r" by (rule concat_bit_eq)
  finally show ?thesis using t by (simp add: push_bit_eq_mult)
qed

lemma unat_le16:
  fixes a b :: byte
  shows "unat (ucast a OR push_bit 8 (ucast b) :: 16 word) = unat a + 256 * unat b"
proof -
  let ?k = "uint a OR push_bit 8 (uint b)"
  have bnd: "uint a < 256" "uint b < 256"
    using uint_bounded [of a] uint_bounded [of b] by simp_all
  have k: "?k = uint a + 256 * uint b"
    using bnd by (intro or_push8_int) simp_all
  have w: "(ucast a OR push_bit 8 (ucast b) :: 16 word) = word_of_int ?k"
    by (rule bit_word_eqI) (auto simp add: bit_simps)
  have rng: "0 \<le> ?k" "?k < 2 ^ 16"
    unfolding k using bnd by simp_all
  have "uint (word_of_int ?k :: 16 word) = take_bit 16 ?k"
    by (simp add: uint_word_of_int_eq del: of_int_add of_int_mult)
  also have "\<dots> = ?k"
    using rng by (simp only: take_bit_int_eq_self)
  finally have "unat (word_of_int ?k :: 16 word) = nat ?k"
    by (simp only: unat_eq_nat_uint)
  then show ?thesis
    unfolding w k by (simp add: nat_add_distrib nat_mult_distrib)
qed

lemma unat_le32:
  fixes a b c d :: byte
  shows "unat (ucast a OR push_bit 8 (ucast b) OR push_bit 16 (ucast c) OR
               push_bit 24 (ucast d) :: 32 word)
     = unat a + 256 * unat b + 65536 * unat c + 16777216 * unat d"
proof -
  let ?k = "uint a OR push_bit 8 (uint b) OR push_bit 16 (uint c) OR push_bit 24 (uint d)"
  have bnd: "uint a < 256" "uint b < 256" "uint c < 256" "uint d < 256"
    using uint_bounded [of a] uint_bounded [of b] uint_bounded [of c] uint_bounded [of d]
    by simp_all
  have "?k = uint a OR push_bit 8 (uint b OR push_bit 8 (uint c OR push_bit 8 (uint d)))"
    by (simp add: push_bit_or push_bit_push_bit or.assoc)
  also have "\<dots> = uint a + 256 * (uint b + 256 * (uint c + 256 * uint d))"
    using bnd by (simp add: or_push8_int)
  finally have k: "?k = uint a + 256 * uint b + 65536 * uint c + 16777216 * uint d"
    by simp
  have w: "(ucast a OR push_bit 8 (ucast b) OR push_bit 16 (ucast c) OR
            push_bit 24 (ucast d) :: 32 word) = word_of_int ?k"
    by (rule bit_word_eqI) (auto simp add: bit_simps)
  have rng: "0 \<le> ?k" "?k < 2 ^ 32"
    unfolding k using bnd by simp_all
  have "uint (word_of_int ?k :: 32 word) = take_bit 32 ?k"
    by (simp add: uint_word_of_int_eq del: of_int_add of_int_mult)
  also have "\<dots> = ?k"
    using rng by (simp only: take_bit_int_eq_self)
  finally have "unat (word_of_int ?k :: 32 word) = nat ?k"
    by (simp only: unat_eq_nat_uint)
  then show ?thesis
    unfolding w k by (simp add: nat_add_distrib nat_mult_distrib)
qed

lemma take2_nth: "2 \<le> length d \<Longrightarrow> take 2 d = [d ! 0, d ! 1]"
  by (cases d; cases "tl d") auto

lemma take4_nth: "4 \<le> length d \<Longrightarrow> take 4 d = [d ! 0, d ! 1, d ! 2, d ! 3]"
  by (cases d; cases "tl d"; cases "tl (tl d)"; cases "tl (tl (tl d))") auto

lemma Uint16_little_endian:
  "2 \<le> length d \<Longrightarrow> unat (LittleEndian_Uint16 d) = little_endian (take 2 d)"
  by (simp add: take2_nth LittleEndian_Uint16_def unat_le16)

lemma Uint32_little_endian:
  "4 \<le> length d \<Longrightarrow> unat (LittleEndian_Uint32 d) = little_endian (take 4 d)"
  by (simp add: take4_nth LittleEndian_Uint32_def unat_le32)

lemma decode_BMPHeader_fields:
  "decode_BMPHeader buf =
     \<lparr>FileType = (buf ! 0, drop 1 buf ! 0),
      FileSize = LittleEndian_Uint32 (drop 2 buf),
      Reserved = LittleEndian_Uint32 (drop 6 buf),
      OffsetData = LittleEndian_Uint32 (drop 10 buf)\<rparr>"
  by (simp add: decode_BMPHeader_def dec_uint8_def dec_uint32_def del: One_nat_def)

lemma decode_DIBHeader_fields:
  "decode_DIBHeader buf =
     \<lparr>DibHeaderSize = LittleEndian_Uint32 buf,
      Width = LittleEndian_Uint32 (drop 4 buf),
      Height = LittleEndian_Uint32 (drop 8 buf),
      Planes = LittleEndian_Uint16 (drop 12 buf),
      BitCount = LittleEndian_Uint16 (drop 14 buf),
      Compression = LittleEndian_Uint32 (drop 16 buf),
      ImageSize = LittleEndian_Uint32 (drop 20 buf),
      XPixelsPerM = LittleEndian_Uint32 (drop 24 buf),
      YPixelsPerM = LittleEndian_Uint32 (drop 28 buf),
      ColorsUsed = LittleEndian_Uint32 (drop 32 buf),
      ColorsImp = LittleEndian_Uint32 (drop 36 buf)\<rparr>"
  by (simp add: decode_DIBHeader_def dec_uint16_def dec_uint32_def)

lemma readHeaders_Some:
  assumes "fs filename = Some file"
  shows "readHeaders fs filename =
     (if length file < 14 then Inl ErrorReadingBMPHeader
      else if (file ! 0, file ! 1) \<noteq> (0x42, 0x4D) then Inl NotAValidBMPFile
      else if length file < 54 then Inl ErrorReadingDIBHeader
      else Inr (decode_BMPHeader (take 14 file), decode_DIBHeader (take 40 (drop 14 file))))"
  using assms
  by (auto simp add: readHeaders_def ReadFull_def decode_BMPHeader_fields Let_def)

lemma field32:
  assumes "off + 4 \<le> n" "n \<le> length file"
  shows "unat (LittleEndian_Uint32 (drop off (take n file))) = little_endian (take 4 (drop off file))"
proof -
  have "4 \<le> length (drop off (take n file))" using assms by simp
  then have "unat (LittleEndian_Uint32 (drop off (take n file)))
      = little_endian (take 4 (drop off (take n file)))"
    by (rule Uint32_little_endian)
  also have "take 4 (drop off (take n file)) = take 4 (drop off file)"
    using assms by (simp add: drop_take min_def)
  finally show ?thesis .
qed

lemma field16:
  assumes "off + 2 \<le> n" "n \<le> length file"
  shows "unat (LittleEndian_Uint16 (drop off (take n file))) = little_endian (take 2 (drop off file))"
proof -
  have "2 \<le> length (drop off (take n file))" using assms by simp
  then have "unat (LittleEndian_Uint16 (drop off (take n file)))
      = little_endian (take 2 (drop off (take n file)))"
    by (rule Uint16_little_endian)
  also have "take 2 (drop off (take n file)) = take 2 (drop off file)"
    using assms by (simp add: drop_take min_def)
  finally show ?thesis .
qed

lemma sample_file_headers:
  "readHeaders [''in.bmp'' \<mapsto> sample_file] ''in.bmp'' = Inr (sample_bmp, sample_dib)"
  by code_simp

text \<open>
  Claim C2, as the code has it. \<open>readHeaders\<close> fails when the file cannot be opened;
  on a file that opens it fails exactly when the file has fewer than 54 bytes or its
  first two bytes are not "BM". On every other file it returns the two headers, and
  each multi-byte field has the little-endian value of the bytes at its offset in the
  file (2, 6, 10 for the file header; 14 to 50 for the info header). The info-header
  size, the planes, the bits per pixel and the compression are returned as read: no
  value of theirs makes \<open>readHeaders\<close> fail.
\<close>

theorem readHeaders_checks_length_and_magic_only:
  "(fs filename = None \<longrightarrow> readHeaders fs filename = Inl ErrorOpeningFile) \<and>
   (\<forall>file. fs filename = Some file \<longrightarrow>
      (isl (readHeaders fs filename) \<longleftrightarrow> length file < 54 \<or> take 2 file \<noteq> [0x42, 0x4D]) \<and>
      (\<forall>bmp dib. readHeaders fs filename = Inr (bmp, dib) \<longrightarrow>
         FileType bmp = (file ! 0, file ! 1) \<and>
         unat (FileSize bmp) = little_endian (take 4 (drop 2 file)) \<and>
         unat (Reserved bmp) = little_endian (take 4 (drop 6 file)) \<and>
         unat (OffsetData bmp) = little_endian (take 4 (drop 10 file)) \<and>
         unat (DibHeaderSize dib) = little_endian (take 4 (drop 14 file)) \<and>
         unat (Width dib) = little_endian (take 4 (drop 18 file)) \<and>
         unat (Height dib) = little_endian (take 4 (drop 22 file)) \<and>
         unat (Planes dib) = little_endian (take 2 (drop 26 file)) \<and>
         unat (BitCount dib) = little_endian (take 2 (drop 28 file)) \<and>
         unat (Compression dib) = little_endian (take 4 (drop 30 file)) \<and>
         unat (ImageSize dib) = little_endian (take 4 (drop 34 file)) \<and>
         unat (XPixelsPerM dib) = little_endian (take 4 (drop 38 file)) \<and>
         unat (YPixelsPerM dib) = little_endian (take 4 (drop 42 file)) \<and>
         unat (ColorsUsed dib) = little_endian (take 4 (drop 46 file)) \<and>
         unat (ColorsImp dib) = little_endian (take 4 (drop 50 file))))"
proof (intro conjI allI impI)
  assume "fs filename = None"
  then show "readHeaders fs filename = Inl ErrorOpeningFile"
    by (simp add: readHeaders_def)
next
  fix bs
  assume f: "fs filename = Some bs"
  have magic: "take 2 bs \<noteq> [0x42, 0x4D] \<longleftrightarrow> (bs ! 0, bs ! 1) \<noteq> (0x42, 0x4D)"
    if "14 \<le> length bs"
    using that by (simp add: take2_nth)
  show "isl (readHeaders fs filename) \<longleftrightarrow> length bs < 54 \<or> take 2 bs \<noteq> [0x42, 0x4D]"
  proof (cases "14 \<le> length bs")
    case True
    with magic show ?thesis by (auto simp add: readHeaders_Some [of fs filename bs, OF f])
  next
    case False
    then show ?thesis by (simp add: readHeaders_Some [of fs filename bs, OF f])
  qed
next
  fix bs bmp dib
  assume f: "fs filename = Some bs" and ok: "readHeaders fs filename = Inr (bmp, dib)"
  from ok have len: "54 \<le> length bs"
    and bmp: "bmp = decode_BMPHeader (take 14 bs)"
    and dib: "dib = decode_DIBHeader (take 40 (drop 14 bs))"
    by (auto simp add: readHeaders_Some [of fs filename bs, OF f] split: if_splits)
  have l14: "14 \<le> length bs" and l40: "40 \<le> length (drop 14 bs)"
    using len by simp_all
  show "FileType bmp = (bs ! 0, bs ! 1)"
    using len by (simp add: bmp decode_BMPHeader_fields)
  show "unat (FileSize bmp) = little_endian (take 4 (drop 2 bs))"
    using l14 by (simp add: bmp decode_BMPHeader_fields field32)
  show "unat (Reserved bmp) = little_endian (take 4 (drop 6 bs))"
    using l14 by (simp add: bmp decode_BMPHeader_fields field32)
  show "unat (OffsetData bmp) = little_endian (take 4 (drop 10 bs))"
    using l14 by (simp add: bmp decode_BMPHeader_fields field32)
  show "unat (DibHeaderSize dib) = little_endian (take 4 (drop 14 bs))"
    using l40 field32 [of 0 40 "drop 14 bs"] by (simp add: dib decode_DIBHeader_fields)
  show "unat (Width dib) = little_endian (take 4 (drop 18 bs))"
    using l40 field32 [of 4 40 "drop 14 bs"] by (simp add: dib decode_DIBHeader_fields)
  show "unat (Height dib) = little_endian (take 4 (drop 22 bs))"
    using l40 field32 [of 8 40 "drop 14 bs"] by (simp add: dib decode_DIBHeader_fields)
  show "unat (Planes dib) = little_endian (take 2 (drop 26 bs))"
    using l40 field16 [of 12 40 "drop 14 bs"] by (simp add: dib decode_DIBHeader_fields)
  show "unat (BitCount dib) = little_endian (take 2 (drop 28 bs))"
    using l40 field16 [of 14 40 "drop 14 bs"] by (simp add: dib decode_DIBHeader_fields)
  show "unat (Compression dib) = little_endian (take 4 (drop 30 bs))"
    using l40 field32 [of 16 40 "drop 14 bs"] by (simp add: dib decode_DIBHeader_fields)
  show "unat (ImageSize dib) = little_endian (take 4 (drop 34 bs))"
    using l40 field32 [of 20 40 "drop 14 bs"] by (simp add: dib decode_DIBHeader_fields)
  show "unat (XPixelsPerM dib) = little_endian (take 4 (drop 38 bs))"
    using l40 field32 [of 24 40 "drop 14 bs"] by (simp add: dib decode_DIBHeader_fields)
  show "unat (YPixelsPerM dib) = little_endian (take 4 (drop 42 bs))"
    using l40 field32 [of 28 40 "drop 14 bs"] by (simp add: dib decode_DIBHeader_fields)
  show "unat (ColorsUsed dib) = little_endian (take 4 (drop 46 bs))"
    using l40 field32 [of 32 40 "drop 14 bs"] by (simp add: dib decode_DIBHeader_fields)
  show "unat (ColorsImp dib) = little_endian (take 4 (drop 50 bs))"
    using l40 field32 [of 36 40 "drop 14 bs"] by (simp add: dib decode_DIBHeader_fields)
qed

theorem readHeaders_checks_length_and_magic_only_witness:
  "[''in.bmp'' \<mapsto> sample_file] ''in.bmp'' = Some sample_file \<and>
   readHeaders [''in.bmp'' \<mapsto> sample_file] ''in.bmp'' = Inr (sample_bmp, sample_dib) \<and>
   54 \<le> length sample_file \<and> take 2 sample_file = [0x42, 0x4D] \<and>
   FileType sample_bmp = (sample_file ! 0, sample_file ! 1) \<and>
   unat (FileSize sample_bmp) = little_endian (take 4 (drop 2 sample_file)) \<and>
   unat (Width sample_dib) = little_endian (take 4 (drop 18 sample_file)) \<and>
   unat (Height sample_dib) = little_endian (take 4 (drop 22 sample_file)) \<and>
   unat (BitCount sample_dib) = little_endian (take 2 (drop 28 sample_file))"
proof -
  have f: "[''in.bmp'' \<mapsto> sample_file] ''in.bmp'' = Some sample_file"
    by simp
  have ok: "\<not> isl (readHeaders [''in.bmp'' \<mapsto> sample_file] ''in.bmp'')"
    by (simp add: sample_file_headers)
  from readHeaders_checks_length_and_magic_only
         [of "[''in.bmp'' \<mapsto> sample_file]" "''in.bmp''"] f ok sample_file_headers
  show ?thesis
    by (metis not_le)
qed

text \<open>
  Claim C2 as stated fails on a 54-byte file that starts with "BM" and holds zero
  bytes only: its info-header size is 0 and not 40, its planes 0 and not 1, its bits
  per pixel 0 and not 24, and still \<open>readHeaders\<close> returns the two headers.
\<close>

theorem readHeaders_accepts_zero_header:
  "length bm_zeros = 54 \<and>
   little_endian (take 4 (drop 14 bm_zeros)) = 0 \<and>
   readHeaders [''in.bmp'' \<mapsto> bm_zeros] ''in.bmp'' =
     Inr (\<lparr>FileType = (0x42, 0x4D), FileSize = 0, Reserved = 0, OffsetData = 0\<rparr>,
          \<lparr>DibHeaderSize = 0, Width = 0, Height = 0, Planes = 0, BitCount = 0,
           Compression = 0, ImageSize = 0, XPixelsPerM = 0, YPixelsPerM = 0,
           ColorsUsed = 0, ColorsImp = 0\<rparr>)"
  by code_simp

section \<open>Pixel input and output on the sample image\<close>

text \<open>
  Claim C1 on the 4 by 2 sample image: \<open>writePixels\<close> followed by \<open>readPixels\<close> on
  the file just written. The write reports no error, the read reports no error and
  returns no pixels, while the buffer written had eight.
\<close>

theorem roundtrip_returns_no_pixels:
  "snd (writePixels Map.empty ''out.bmp'' sample_bmp sample_dib sample_pixels) = None \<and>
   readPixels (fst (writePixels Map.empty ''out.bmp'' sample_bmp sample_dib sample_pixels))
     ''out.bmp'' sample_bmp sample_dib = Inr [] \<and>
   length sample_pixels = 8"
  by (simp add: writePixels_def readPixels_def sample_pixels_def)

text \<open>
  Claim C8 on the sample image: after \<open>writePixels\<close> the file system is the one
  before the call, so the output file does not exist and holds no header bytes; and a
  whole run of \<open>main\<close> with an apply command exits with status 0 and leaves no
  output file either.
\<close>

theorem writePixels_writes_no_file:
  "writePixels [''in.bmp'' \<mapsto> sample_file] ''out.bmp'' sample_bmp sample_dib sample_pixels
     = ([''in.bmp'' \<mapsto> sample_file], None) \<and>
   [''in.bmp'' \<mapsto> sample_file] ''out.bmp'' = None \<and>
   main [''in.bmp'' \<mapsto> sample_file]
        [''bitmap'', ''apply'', ''--rotate=90'', ''in.bmp'', ''out.bmp'']
     = (0, [''in.bmp'' \<mapsto> sample_file])"
  by (simp add: main_def parseArgs_def HasPrefix_def SplitN2_def sample_file_headers
        readPixels_def writePixels_def)

section \<open>The option loop and the transforms on the sample image\<close>

text \<open>
  Claim C3 on the option list \<open>--rotate=90\<close>, \<open>--crop=1-0-2-1\<close> over the 4 by 2
  sample header: the loop calls \<open>applyRotate\<close> with angle 0 and \<open>applyCrop\<close> with
  the rectangle 0, 0, 100, 100. Neither call carries the value of its option.
\<close>

theorem option_loop_ignores_rotate_and_crop_values:
  "pipeline_calls sample_dib
     [\<lparr>Name = ''--rotate'', Value = ''90''\<rparr>, \<lparr>Name = ''--crop'', Value = ''1-0-2-1''\<rparr>]
   = [CallRotate 4 2 0, CallCrop 4 2 0 0 100 100]"
  by code_simp

text \<open>
  Claim C4 on the sample image. Cropping the rectangle at offset (1, 0) of width 2 and
  height 1 returns all eight pixels, not two. The rectangle at offset (3, 1) of width
  2 and height 2 reaches outside the image and is answered with the whole image as
  well. The option \<open>--crop=abc\<close> leaves the pixels as they are, and a run of
  \<open>main\<close> with it exits with status 0.
\<close>

theorem crop_returns_whole_buffer:
  "applyCrop sample_pixels 4 2 1 0 2 1 = sample_pixels \<and>
   length (applyCrop sample_pixels 4 2 1 0 2 1) = 8 \<and>
   applyCrop sample_pixels 4 2 3 1 2 2 = sample_pixels \<and>
   process_option sample_dib sample_pixels \<lparr>Name = ''--crop'', Value = ''abc''\<rparr>
     = sample_pixels \<and>
   fst (main [''in.bmp'' \<mapsto> sample_file]
          [''bitmap'', ''apply'', ''--crop=abc'', ''in.bmp'', ''out.bmp'']) = 0"
  by code_simp

text \<open>
  Claim C5 on the sample image. Rotating by 90 degrees returns the eight pixels in
  their old order: the first pixel of the result is the first pixel of the input, and
  not the first pixel of the input's last row (index 4), which a clockwise rotation
  puts there. A run of \<open>main\<close> with \<open>--rotate=45\<close> exits with status 0.
\<close>

theorem rotate_returns_buffer_unrotated:
  "applyRotate sample_pixels 4 2 90 = sample_pixels \<and>
   applyRotate sample_pixels 4 2 90 ! 0 = sample_pixels ! 0 \<and>
   sample_pixels ! 0 \<noteq> sample_pixels ! 4 \<and>
   fst (main [''in.bmp'' \<mapsto> sample_file]
          [''bitmap'', ''apply'', ''--rotate=45'', ''in.bmp'', ''out.bmp'']) = 0"
  by code_simp

text \<open>
  Claim C6 on the sample image. Both mirror modes return the eight pixels in their old
  order: the first pixel of the result is the first pixel of the input, and neither
  the last pixel of the first row (index 3, horizontal) nor the first pixel of the
  last row (index 4, vertical). The mode \<open>diagonal\<close> returns the pixels too, and a run
  of \<open>main\<close> with it exits with status 0.
\<close>

theorem mirror_returns_buffer_unmirrored:
  "applyMirror sample_pixels 4 2 ''horizontal'' = sample_pixels \<and>
   applyMirror sample_pixels 4 2 ''vertical'' = sample_pixels \<and>
   sample_pixels ! 0 \<noteq> sample_pixels ! 3 \<and>
   sample_pixels ! 0 \<noteq> sample_pixels ! 4 \<and>
   applyMirror sample_pixels 4 2 ''diagonal'' = sample_pixels \<and>
   fst (main [''in.bmp'' \<mapsto> sample_file]
          [''bitmap'', ''apply'', ''--mirror=diagonal'', ''in.bmp'', ''out.bmp'']) = 0"
  by code_simp

text \<open>
  Claim C7 on a 2 by 2 image of white pixels (255 in every channel): the filter
  \<open>negative\<close> returns the four white pixels, which are not the four black ones.
\<close>

theorem negative_filter_leaves_white_white:
  "applyFilter [gray 255, gray 255, gray 255, gray 255] 2 2 ''negative''
     = [gray 255, gray 255, gray 255, gray 255] \<and>
   [gray 255, gray 255, gray 255, gray 255] \<noteq> [gray 0, gray 0, gray 0, gray 0]"
  by code_simp

end
